theory Spec2Isabelle
  imports Main "HOL-Library.AList" "HOL-Library.Sublist"
begin

section \<open>Data model (types.ts)\<close>

text \<open>
  JSON-representable values carried in event payloads and response bodies.  Objects are
  association lists in insertion order; arrays are left out, no operation below looks
  inside one.
\<close>

datatype json = JNull | JBool bool | JNum int | JStr string | JObj "(string \<times> json) list"

type_synonym obj = "(string \<times> json) list"

text \<open>Object spread \<^verbatim>\<open>{ ...target, ...src }\<close>: a key already present keeps its
  place and takes the new value, a new key goes to the end.\<close>

definition spread :: "obj \<Rightarrow> obj \<Rightarrow> obj" where
  "spread target src = fold (\<lambda>(k, v). AList.update k v) src target"

text \<open>\<^verbatim>\<open>...(cond && { ... })\<close>: spreading a falsy value adds nothing.\<close>

definition spread_if :: "bool \<Rightarrow> obj \<Rightarrow> obj \<Rightarrow> obj" where
  "spread_if cond src target = (if cond then spread target src else target)"

text \<open>Truthiness of a JavaScript string: the empty string is falsy.\<close>

definition truthy :: "string \<Rightarrow> bool" where
  "truthy s = (s \<noteq> [])"

datatype event_type = job_started | job_event | job_done | job_failed | job_skipped | job_review

record IngestEvent =
  jobId :: string
  externalId :: "string option"
  type :: event_type
  timestamp :: int
  data :: "obj option"

record Entity =
  entity_type :: string
  entity_id :: string
  entity_ref :: "string option"

record JobOptions =
  job_type :: string
  entity :: "Entity option"
  opt_externalId :: "string option"
  metadata :: "obj option"

record EventOptions =
  message :: "string option"
  event_data :: "obj option"

text \<open>The argument of \<^verbatim>\<open>Job.event\<close>: a plain message or an options object.\<close>

datatype event_arg = Message string | Options EventOptions

text \<open>
  The argument of \<^verbatim>\<open>Job.failed\<close>, of type \<^verbatim>\<open>unknown\<close>: an \<^verbatim>\<open>Error\<close> object with its
  message and optional stack, a string, or any other value given by its \<^verbatim>\<open>String(...)\<close>
  rendering.
\<close>

datatype thrown = ErrorObject string "string option" | StringValue string | OtherValue string

section \<open>Job (job.ts)\<close>

text \<open>
  \<^verbatim>\<open>Date.now()\<close> is an external clock: the \<open>k\<close>-th call made by the program returns
  \<open>clk k\<close>.  Every operation that reads the clock takes the number of readings made so
  far and returns it advanced.
\<close>

type_synonym clock = "nat \<Rightarrow> int"

definition Date_now :: "clock \<Rightarrow> nat \<Rightarrow> int \<times> nat" where
  "Date_now clk t = (clk t, Suc t)"

record Job =
  idJob :: string
  events :: "IngestEvent list"
  completed :: bool

text \<open>The constructor pushes the started event at once.\<close>

definition started_data :: "JobOptions \<Rightarrow> obj" where
  "started_data options =
     spread_if (case metadata options of None \<Rightarrow> False | Some m \<Rightarrow> length (map fst m) > 0)
       [(''metadata'', JObj (case metadata options of None \<Rightarrow> [] | Some m \<Rightarrow> m))]
    (spread_if (case entity options of None \<Rightarrow> False
                | Some e \<Rightarrow> (case entity_ref e of None \<Rightarrow> False | Some r \<Rightarrow> truthy r))
       [(''entityRef'', JStr (case entity options of None \<Rightarrow> []
                              | Some e \<Rightarrow> (case entity_ref e of None \<Rightarrow> [] | Some r \<Rightarrow> r)))]
    (spread_if (case entity options of None \<Rightarrow> False | Some e \<Rightarrow> truthy (entity_id e))
       [(''entityId'', JStr (case entity options of None \<Rightarrow> [] | Some e \<Rightarrow> entity_id e))]
    (spread_if (case entity options of None \<Rightarrow> False | Some e \<Rightarrow> truthy (entity_type e))
       [(''entityType'', JStr (case entity options of None \<Rightarrow> [] | Some e \<Rightarrow> entity_type e))]
       [(''jobType'', JStr (job_type options))])))"

definition Job_new :: "clock \<Rightarrow> string \<Rightarrow> JobOptions \<Rightarrow> nat \<Rightarrow> Job \<times> nat" where
  "Job_new clk ident options t =
     (let (now, t') = Date_now clk t
      in (\<lparr>idJob = ident,
           events = [\<lparr>jobId = ident, externalId = opt_externalId options, type = job_started,
                      timestamp = now, data = Some (started_data options)\<rparr>],
           completed = False\<rparr>, t'))"

text \<open>
  A method of the job either returns without calling \<^verbatim>\<open>_sendFn\<close> (\<open>None\<close>) or ends in
  \<^verbatim>\<open>await this._sendFn(this._events)\<close> (\<open>Some\<close> of the events handed over); in the
  second case the outcome of \<^verbatim>\<open>_sendFn\<close> is the outcome of the method.
\<close>

definition Job_event :: "clock \<Rightarrow> event_arg \<Rightarrow> Job \<times> nat \<Rightarrow> Job \<times> nat" where
  "Job_event clk messageOrOptions = (\<lambda>(j, t).
     if completed j then (j, t)
     else
       let opts = (case messageOrOptions of
                     Message s \<Rightarrow> \<lparr>message = Some s, event_data = None\<rparr>
                   | Options opts \<Rightarrow> opts);
           (now, t') = Date_now clk t
       in (j\<lparr>events := events j @
              [\<lparr>jobId = idJob j, externalId = None, type = job_event, timestamp = now,
                data = Some (spread
                  (spread_if (case message opts of None \<Rightarrow> False | Some m \<Rightarrow> truthy m)
                     [(''message'', JStr (case message opts of None \<Rightarrow> [] | Some m \<Rightarrow> m))] [])
                  (case event_data opts of None \<Rightarrow> [] | Some d \<Rightarrow> d))\<rparr>]\<rparr>, t'))"

text \<open>\<^verbatim>\<open>this._events[0]?.timestamp ?? Date.now()\<close>: the clock is read only when there
  is no first event.\<close>

definition start_timestamp :: "clock \<Rightarrow> Job \<Rightarrow> nat \<Rightarrow> int \<times> nat" where
  "start_timestamp clk j t =
     (case events j of [] \<Rightarrow> Date_now clk t | e # _ \<Rightarrow> (timestamp e, t))"

definition Job_done ::
  "clock \<Rightarrow> json option \<Rightarrow> Job \<times> nat \<Rightarrow> (Job \<times> nat) \<times> IngestEvent list option" where
  "Job_done clk result = (\<lambda>(j, t).
     if completed j then ((j, t), None)
     else
       let j1 = j\<lparr>completed := True\<rparr>;
           (startTs, t1) = start_timestamp clk j1 t;
           (now, t2) = Date_now clk t1;
           j2 = j1\<lparr>events := events j1 @
              [\<lparr>jobId = idJob j1, externalId = None, type = job_done, timestamp = now,
                data = Some (spread
                  (spread_if (result \<noteq> None)
                     [(''result'', (case result of None \<Rightarrow> JNull | Some r \<Rightarrow> r))] [])
                  [(''durationMs'', JNum (now - startTs))])\<rparr>]\<rparr>
       in ((j2, t2), Some (events j2)))"

text \<open>A stack that is \<^verbatim>\<open>undefined\<close> leaves no key in the serialised object.\<close>

definition errorData :: "thrown \<Rightarrow> obj" where
  "errorData error =
     (case error of
        ErrorObject m st \<Rightarrow>
          (''message'', JStr m) # (case st of None \<Rightarrow> [] | Some s \<Rightarrow> [(''stack'', JStr s)])
      | StringValue s \<Rightarrow> [(''message'', JStr s)]
      | OtherValue s \<Rightarrow> [(''message'', JStr s)])"

definition Job_failed ::
  "clock \<Rightarrow> thrown \<Rightarrow> Job \<times> nat \<Rightarrow> (Job \<times> nat) \<times> IngestEvent list option" where
  "Job_failed clk error = (\<lambda>(j, t).
     if completed j then ((j, t), None)
     else
       let j1 = j\<lparr>completed := True\<rparr>;
           (startTs, t1) = start_timestamp clk j1 t;
           (now, t2) = Date_now clk t1;
           j2 = j1\<lparr>events := events j1 @
              [\<lparr>jobId = idJob j1, externalId = None, type = job_failed, timestamp = now,
                data = Some [(''error'', JObj (errorData error)),
                             (''durationMs'', JNum (now - startTs))]\<rparr>]\<rparr>
       in ((j2, t2), Some (events j2)))"

definition Job_skip ::
  "clock \<Rightarrow> string \<Rightarrow> Job \<times> nat \<Rightarrow> (Job \<times> nat) \<times> IngestEvent list option" where
  "Job_skip clk reason = (\<lambda>(j, t).
     if completed j then ((j, t), None)
     else
       let j1 = j\<lparr>completed := True\<rparr>;
           (now, t1) = Date_now clk t;
           j2 = j1\<lparr>events := events j1 @
              [\<lparr>jobId = idJob j1, externalId = None, type = job_skipped, timestamp = now,
                data = Some [(''message'', JStr reason)]\<rparr>]\<rparr>
       in ((j2, t1), Some (events j2)))"

definition Job_review ::
  "clock \<Rightarrow> string \<Rightarrow> Job \<times> nat \<Rightarrow> (Job \<times> nat) \<times> IngestEvent list option" where
  "Job_review clk reason = (\<lambda>(j, t).
     if completed j then ((j, t), None)
     else
       let j1 = j\<lparr>completed := True\<rparr>;
           (now, t1) = Date_now clk t;
           j2 = j1\<lparr>events := events j1 @
              [\<lparr>jobId = idJob j1, externalId = None, type = job_review, timestamp = now,
                data = Some [(''message'', JStr reason)]\<rparr>]\<rparr>
       in ((j2, t1), Some (events j2)))"

text \<open>A call on a job, and a sequence of calls; the second component collects, in order,
  the argument of every invocation of \<^verbatim>\<open>_sendFn\<close>.\<close>

datatype call = Event event_arg | Done "json option" | Failed thrown | Skip string | Review string

fun Job_call :: "clock \<Rightarrow> call \<Rightarrow> Job \<times> nat \<Rightarrow> (Job \<times> nat) \<times> IngestEvent list option" where
  "Job_call clk (Event a) jt = (Job_event clk a jt, None)"
| "Job_call clk (Done r) jt = Job_done clk r jt"
| "Job_call clk (Failed e) jt = Job_failed clk e jt"
| "Job_call clk (Skip s) jt = Job_skip clk s jt"
| "Job_call clk (Review s) jt = Job_review clk s jt"

fun Job_calls :: "clock \<Rightarrow> call list \<Rightarrow> Job \<times> nat \<Rightarrow> (Job \<times> nat) \<times> IngestEvent list list" where
  "Job_calls clk [] jt = (jt, [])"
| "Job_calls clk (c # cs) jt =
     (let (jt1, sent) = Job_call clk c jt;
          (jt2, sents) = Job_calls clk cs jt1
      in (jt2, (case sent of None \<Rightarrow> [] | Some evs \<Rightarrow> [evs]) @ sents))"

section \<open>Client (client.ts)\<close>

subsection \<open>Configuration, transport and state\<close>

text \<open>An \<^verbatim>\<open>Error\<close> value, given by its message.\<close>

datatype error = Error string

datatype mode = per_job | batch

text \<open>
  The resolved options of the client; the numeric ones are integers.  \<open>onError\<close> is the
  optional failure observer: the callback returns \<open>None\<close> when it returns normally and
  \<open>Some e\<close> when it throws \<open>e\<close>.
\<close>

record Options =
  apiKey :: string
  baseUrl :: string
  mode :: mode
  batchInterval :: int
  batchSize :: int
  maxRetries :: int
  disabled :: bool
  onError :: "(error \<Rightarrow> error option) option"

text \<open>
  What \<^verbatim>\<open>fetch\<close> is called with and what it answers.  \<open>json_body\<close> is what
  \<^verbatim>\<open>response.json()\<close> resolves to, any JSON value, \<^verbatim>\<open>null\<close> included: the cast to
  \<^verbatim>\<open>Record<string, unknown>\<close> checks nothing at run time.  \<open>json_body = None\<close> stands
  for a body whose \<^verbatim>\<open>json()\<close> rejects.  \<^verbatim>\<open>Response.ok\<close> is, by the Fetch standard, the
  status being in the range 200 to 299.  A rejected \<^verbatim>\<open>fetch\<close> (network error, abort
  after the timeout) carries the error it rejects with.
\<close>

record Request =
  url :: string
  authorization :: string
  body :: "IngestEvent list"

record Response =
  status :: nat
  json_body :: "json option"

definition ok :: "Response \<Rightarrow> bool" where
  "ok response = (200 \<le> status response \<and> status response \<le> 299)"

datatype fetch_result = Resolved Response | Rejected error

text \<open>The transport: the answer to the \<open>k\<close>-th call of \<^verbatim>\<open>fetch\<close>, given its request.\<close>

type_synonym fetch = "nat \<Rightarrow> Request \<Rightarrow> fetch_result"

text \<open>
  Everything outside the client: the number of calls of \<^verbatim>\<open>fetch\<close> made, the requests in
  order, the errors handed to \<open>onError\<close> in order, the back-off delays waited, in
  milliseconds, and the greatest number of arguments the engine accepts in one call.  The
  last is a constant of the engine that runs the client (some hundred thousand); a call
  \<^verbatim>\<open>f(...xs)\<close> that spreads a longer array throws a \<^verbatim>\<open>RangeError\<close>.
\<close>

record world =
  calls :: nat
  requests :: "Request list"
  reported :: "error list"
  delays :: "nat list"
  maxArguments :: nat

text \<open>The private fields of the client; \<open>flushTimer\<close> says whether the interval timer
  is armed.\<close>

record Synquer =
  buffer :: "IngestEvent list"
  flushTimer :: bool
  flushing :: bool
  shutdownCalled :: bool

text \<open>The outcome of an \<^verbatim>\<open>async\<close> method: \<open>Inl e\<close> is a promise rejected with \<open>e\<close>.\<close>

type_synonym outcome = "error + unit"

subsection \<open>Rendering values in template literals\<close>

fun show_nat :: "nat \<Rightarrow> string" where
  "show_nat n =
     (if n < 10 then [''0123456789'' ! n]
      else show_nat (n div 10) @ [''0123456789'' ! (n mod 10)])"

declare show_nat.simps [simp del]

definition show_int :: "int \<Rightarrow> string" where
  "show_int i = (if i < 0 then CHR ''-'' # show_nat (nat (- i)) else show_nat (nat i))"

definition js_String :: "json \<Rightarrow> string" where
  "js_String v =
     (case v of
        JNull \<Rightarrow> ''null''
      | JBool b \<Rightarrow> (if b then ''true'' else ''false'')
      | JNum i \<Rightarrow> show_int i
      | JStr s \<Rightarrow> s
      | JObj _ \<Rightarrow> ''[object Object]'')"

text \<open>
  The errors thrown by the engine itself, with the messages of V8: reading a property of
  \<^verbatim>\<open>null\<close>, and spreading an array of more elements than a call accepts.
\<close>

definition TypeError_null :: error where
  "TypeError_null =
     Error (''Cannot read properties of null (reading '' @ [CHR 0x27] @ ''error'' @ [CHR 0x27] @ '')'')"

definition RangeError :: error where
  "RangeError = Error ''Maximum call stack size exceeded''"

text \<open>
  \<^verbatim>\<open>data.error ?? 'Unknown error'\<close> with \<^verbatim>\<open>data\<close> the parsed body, or \<^verbatim>\<open>{}\<close> when parsing
  fails.  Reading \<^verbatim>\<open>.error\<close> of \<^verbatim>\<open>null\<close> throws (\<open>Inl\<close>); of a boolean, a number or a
  string it gives \<^verbatim>\<open>undefined\<close>.
\<close>

definition error_detail :: "Response \<Rightarrow> error + string" where
  "error_detail response =
     (case json_body response of
        None \<Rightarrow> Inr ''Unknown error''
      | Some JNull \<Rightarrow> Inl TypeError_null
      | Some (JObj members) \<Rightarrow>
          (case map_of members ''error'' of
             None \<Rightarrow> Inr ''Unknown error''
           | Some JNull \<Rightarrow> Inr ''Unknown error''
           | Some v \<Rightarrow> Inr (js_String v))
      | Some _ \<Rightarrow> Inr ''Unknown error'')"

subsection \<open>Sending with retries\<close>

text \<open>\<^verbatim>\<open>Math.min(1000 * Math.pow(2, attempt), 10_000)\<close>, waited only when another
  attempt follows.\<close>

definition backoff :: "Options \<Rightarrow> nat \<Rightarrow> world \<Rightarrow> world" where
  "backoff opts attempt w =
     (if int attempt < maxRetries opts
      then w\<lparr>delays := delays w @ [min (1000 * 2 ^ attempt) 10000]\<rparr>
      else w)"

text \<open>
  The errors built for a 400 or 401 response and for any other failing status.  Building
  the first reads the body, inside the \<^verbatim>\<open>try\<close> block: \<open>Inl\<close> is what that read throws.
\<close>

definition terminal_error :: "Response \<Rightarrow> error + error" where
  "terminal_error response =
     (case error_detail response of
        Inl thrown \<Rightarrow> Inl thrown
      | Inr detail \<Rightarrow>
          Inr (Error (''Synquer API error '' @ show_nat (status response) @ '': '' @ detail)))"

definition retryable_error :: "Response \<Rightarrow> error" where
  "retryable_error response = Error (''Synquer API error '' @ show_nat (status response))"

definition batch_request :: "Options \<Rightarrow> IngestEvent list \<Rightarrow> Request" where
  "batch_request opts evs =
     \<lparr>url = baseUrl opts @ ''/v1/events/batch'',
      authorization = ''Bearer '' @ apiKey opts, body = evs\<rparr>"

text \<open>One call of \<^verbatim>\<open>fetch\<close> with the request.\<close>

definition attempted :: "Request \<Rightarrow> world \<Rightarrow> world" where
  "attempted req w = w\<lparr>calls := Suc (calls w), requests := requests w @ [req]\<rparr>"

text \<open>
  How the \<^verbatim>\<open>for\<close> loop of \<^verbatim>\<open>_send\<close> is left: by \<^verbatim>\<open>return\<close> on success, or by
  \<^verbatim>\<open>break\<close> or a false loop condition with the current \<^verbatim>\<open>lastError\<close>.  Whatever is
  thrown inside the \<^verbatim>\<open>try\<close> block, by \<^verbatim>\<open>fetch\<close> or by the statements after it, is caught
  and becomes \<^verbatim>\<open>lastError\<close>, and the loop goes on.
\<close>

datatype loop_exit = Returned | Exited "error option"

function retry_loop ::
  "Options \<Rightarrow> fetch \<Rightarrow> Request \<Rightarrow> nat \<Rightarrow> error option \<Rightarrow> world \<Rightarrow> loop_exit \<times> world" where
  "retry_loop opts fetch req attempt lastError w =
     (if int attempt \<le> maxRetries opts then
        (let w1 = attempted req w
         in case fetch (calls w) req of
              Resolved response \<Rightarrow>
                if ok response \<or> status response = 207 then (Returned, w1)
                else if status response = 400 \<or> status response = 401 then
                  (case terminal_error response of
                     Inr error \<Rightarrow> (Exited (Some error), w1)
                   | Inl thrown \<Rightarrow>
                       retry_loop opts fetch req (Suc attempt) (Some thrown)
                         (backoff opts attempt w1))
                else retry_loop opts fetch req (Suc attempt) (Some (retryable_error response))
                       (backoff opts attempt w1)
            | Rejected err \<Rightarrow>
                retry_loop opts fetch req (Suc attempt) (Some err) (backoff opts attempt w1))
      else (Exited lastError, w))"
  by pat_completeness auto
termination
  by (relation "measure (\<lambda>(opts, fetch, req, attempt, lastError, w).
                  nat (maxRetries opts + 1 - int attempt))") auto

declare retry_loop.simps [simp del]

text \<open>The statements after the loop, for a defined \<^verbatim>\<open>lastError\<close>: the observer is
  called if there is one, then the error is thrown (or what the observer throws).\<close>

definition report_failure :: "Options \<Rightarrow> error \<Rightarrow> world \<Rightarrow> outcome \<times> world" where
  "report_failure opts lastError w =
     (case onError opts of
        None \<Rightarrow> (Inl lastError, w)
      | Some observer \<Rightarrow>
          (let w' = w\<lparr>reported := reported w @ [lastError]\<rparr>
           in case observer lastError of
                None \<Rightarrow> (Inl lastError, w')
              | Some e \<Rightarrow> (Inl e, w')))"

definition Synquer_send :: "Options \<Rightarrow> fetch \<Rightarrow> IngestEvent list \<Rightarrow> world \<Rightarrow> outcome \<times> world" where
  "Synquer_send opts fetch evs w =
     (if disabled opts \<or> length evs = 0 then (Inr (), w)
      else
        case retry_loop opts fetch (batch_request opts evs) 0 None w of
          (Returned, w') \<Rightarrow> (Inr (), w')
        | (Exited None, w') \<Rightarrow> (Inr (), w')
        | (Exited (Some lastError), w') \<Rightarrow> report_failure opts lastError w')"

subsection \<open>Buffer, flush, shutdown\<close>

definition ensureFlushTimer :: "Synquer \<Rightarrow> Synquer" where
  "ensureFlushTimer s =
     (if flushTimer s \<or> shutdownCalled s then s else s\<lparr>flushTimer := True\<rparr>)"

text \<open>The first two statements of the batch branch of \<^verbatim>\<open>sendFn\<close>.\<close>

definition push_events :: "IngestEvent list \<Rightarrow> Synquer \<Rightarrow> Synquer" where
  "push_events evs s = ensureFlushTimer (s\<lparr>buffer := buffer s @ evs\<rparr>)"

text \<open>
  \<^verbatim>\<open>this._buffer.unshift(...events)\<close>: the events go to the front of the buffer, unless
  they are more than one call accepts; then the call throws and the buffer is as it was.
\<close>

definition unshift :: "nat \<Rightarrow> IngestEvent list \<Rightarrow> Synquer \<Rightarrow> error + Synquer" where
  "unshift limit evs s =
     (if length evs \<le> limit then Inr (s\<lparr>buffer := evs @ buffer s\<rparr>) else Inl RangeError)"

text \<open>
  \<^verbatim>\<open>flush\<close> suspends at \<^verbatim>\<open>await this._send(events)\<close>.  While it is suspended with the
  guard set, other jobs of the client may complete: each pushes its events and, if it
  calls \<^verbatim>\<open>flush\<close> itself, returns at the guard.  \<open>concurrent\<close> lists the event
  sequences of the jobs that complete during the suspension, in order; the empty list
  is a flush that nothing interleaves with.  The events of one job are taken to be few
  enough for the \<^verbatim>\<open>push(...events)\<close> of the closure; the batch that flush detaches is the
  whole buffer and has no such bound.

  What the \<^verbatim>\<open>catch\<close> block throws is not caught: the \<^verbatim>\<open>finally\<close> block clears the guard
  and flush rejects.
\<close>

definition Synquer_flush ::
  "Options \<Rightarrow> fetch \<Rightarrow> IngestEvent list list \<Rightarrow> Synquer \<times> world \<Rightarrow> outcome \<times> Synquer \<times> world" where
  "Synquer_flush opts fetch concurrent = (\<lambda>(s, w).
     if length (buffer s) = 0 \<or> flushing s then (Inr (), s, w)
     else
       let s1 = s\<lparr>flushing := True\<rparr>;
           evs = buffer s1;
           s2 = s1\<lparr>buffer := []\<rparr>;
           (r, w') = Synquer_send opts fetch evs w;
           s3 = fold push_events concurrent s2;
           (thrown, s4) =
             (case r of
                Inr _ \<Rightarrow> (None, s3)
              | Inl _ \<Rightarrow>
                  (case unshift (maxArguments w') evs s3 of
                     Inr restored \<Rightarrow> (None, restored)
                   | Inl e \<Rightarrow> (Some e, s3)));
           s5 = s4\<lparr>flushing := False\<rparr>
       in ((case thrown of None \<Rightarrow> Inr () | Some e \<Rightarrow> Inl e), s5, w'))"

text \<open>The closure handed to every job by \<^verbatim>\<open>Synquer.job\<close>.\<close>

definition Synquer_sendFn ::
  "Options \<Rightarrow> fetch \<Rightarrow> IngestEvent list list \<Rightarrow> IngestEvent list \<Rightarrow> Synquer \<times> world
     \<Rightarrow> outcome \<times> Synquer \<times> world" where
  "Synquer_sendFn opts fetch concurrent evs = (\<lambda>(s, w).
     if mode opts = per_job then
       (let (r, w') = Synquer_send opts fetch evs w
        in case r of Inl _ \<Rightarrow> (Inr (), s, w') | Inr _ \<Rightarrow> (Inr (), s, w'))
     else
       (let s1 = push_events evs s
        in if int (length (buffer s1)) \<ge> batchSize opts
           then Synquer_flush opts fetch concurrent (s1, w)
           else (Inr (), s1, w)))"

definition Synquer_shutdown ::
  "Options \<Rightarrow> fetch \<Rightarrow> IngestEvent list list \<Rightarrow> Synquer \<times> world \<Rightarrow> outcome \<times> Synquer \<times> world" where
  "Synquer_shutdown opts fetch concurrent = (\<lambda>(s, w).
     if shutdownCalled s then (Inr (), s, w)
     else
       let s1 = s\<lparr>shutdownCalled := True\<rparr>;
           s2 = (if flushTimer s1 then s1\<lparr>flushTimer := False\<rparr> else s1)
       in if length (buffer s2) > 0
          then Synquer_flush opts fetch concurrent (s2, w)
          else (Inr (), s2, w))"

text \<open>A call on a job created by the client: the job's method, then the closure on
  the events it hands over, if any; the closure's outcome is the call's.\<close>

definition Job_invoke ::
  "clock \<Rightarrow> Options \<Rightarrow> fetch \<Rightarrow> IngestEvent list list \<Rightarrow> call \<Rightarrow> (Job \<times> nat) \<times> Synquer \<times> world
     \<Rightarrow> outcome \<times> (Job \<times> nat) \<times> Synquer \<times> world" where
  "Job_invoke clk opts fetch concurrent c = (\<lambda>(jt, sw).
     case Job_call clk c jt of
       (jt', None) \<Rightarrow> (Inr (), jt', sw)
     | (jt', Some evs) \<Rightarrow>
         (let (r, sw') = Synquer_sendFn opts fetch concurrent evs sw in (r, jt', sw')))"

section \<open>Notions used to state the properties\<close>






text \<open>A job constructed when the clock has been read \<open>t\<close> times, and the calls \<open>cs\<close>
  made on it.\<close>

definition Job_run ::
  "clock \<Rightarrow> string \<Rightarrow> JobOptions \<Rightarrow> nat \<Rightarrow> call list \<Rightarrow> (Job \<times> nat) \<times> IngestEvent list list" where
  "Job_run clk ident options t cs = Job_calls clk cs (Job_new clk ident options t)"

text \<open>The events are there, in the order of their timestamps, and none is later than
  the next reading of the clock.\<close>

definition well_timed :: "clock \<Rightarrow> Job \<times> nat \<Rightarrow> bool" where
  "well_timed clk = (\<lambda>(j, t).
     events j \<noteq> [] \<and> sorted (map timestamp (events j)) \<and>
     list_all (\<lambda>e. timestamp e \<le> clk t) (events j))"

text \<open>
  The ways the loop of \<^verbatim>\<open>_send\<close> treats the answer to one attempt: success; a 400 or
  401 whose error is built, which ends the loop; any other failure, which is retried; and
  a 400 or 401 whose body is \<^verbatim>\<open>null\<close>, which is retried as well, because building its
  error throws.  Then the \<^verbatim>\<open>lastError\<close> the loop keeps for a failed attempt.
\<close>

definition success :: "fetch_result \<Rightarrow> bool" where
  "success r =
     (case r of Resolved response \<Rightarrow> ok response \<or> status response = 207 | Rejected _ \<Rightarrow> False)"

definition terminal_failure :: "fetch_result \<Rightarrow> bool" where
  "terminal_failure r =
     (case r of
        Resolved response \<Rightarrow>
          \<not> (ok response \<or> status response = 207) \<and>
          (status response = 400 \<or> status response = 401) \<and>
          json_body response \<noteq> Some JNull
      | Rejected _ \<Rightarrow> False)"

definition null_body_failure :: "fetch_result \<Rightarrow> bool" where
  "null_body_failure r =
     (case r of
        Resolved response \<Rightarrow>
          \<not> (ok response \<or> status response = 207) \<and>
          (status response = 400 \<or> status response = 401) \<and>
          json_body response = Some JNull
      | Rejected _ \<Rightarrow> False)"

definition retryable_failure :: "fetch_result \<Rightarrow> bool" where
  "retryable_failure r =
     (case r of
        Resolved response \<Rightarrow>
          \<not> (ok response \<or> status response = 207) \<and>
          \<not> (status response = 400 \<or> status response = 401)
      | Rejected _ \<Rightarrow> True)"

definition retried :: "fetch_result \<Rightarrow> bool" where
  "retried r = (retryable_failure r \<or> null_body_failure r)"

definition attempt_error :: "fetch_result \<Rightarrow> error" where
  "attempt_error r =
     (case r of
        Resolved response \<Rightarrow>
          (if status response = 400 \<or> status response = 401
           then (case terminal_error response of Inl thrown \<Rightarrow> thrown | Inr error \<Rightarrow> error)
           else retryable_error response)
      | Rejected err \<Rightarrow> err)"

text \<open>What the failure observer, if there is one, is handed for a failed send.\<close>

definition observed :: "Options \<Rightarrow> error \<Rightarrow> error list" where
  "observed opts e = (case onError opts of None \<Rightarrow> [] | Some _ \<Rightarrow> [e])"

subsection \<open>A concrete job\<close>

text \<open>A clock that starts at 1000 and advances by one at each reading, and a job that
  logs one event and is then marked done.\<close>

definition clock0 :: clock where
  "clock0 k = 1000 + int k"

definition options0 :: JobOptions where
  "options0 = \<lparr>job_type = ''order_sync'', entity = None, opt_externalId = None, metadata = None\<rparr>"

definition calls0 :: "call list" where
  "calls0 = [Event (Message ''Processing''), Done None]"


subsection \<open>A concrete client\<close>

text \<open>Two jobs of two events each, a client configuration with a recording observer, two
  transports, and the state of a client and of its environment before anything happened.\<close>

definition event0 :: "string \<Rightarrow> event_type \<Rightarrow> int \<Rightarrow> IngestEvent" where
  "event0 ident k ts = \<lparr>jobId = ident, externalId = None, type = k, timestamp = ts, data = None\<rparr>"

definition jobA :: "IngestEvent list" where
  "jobA = [event0 ''A'' job_started 1000, event0 ''A'' job_done 1001]"

definition jobB :: "IngestEvent list" where
  "jobB = [event0 ''B'' job_started 1002, event0 ''B'' job_done 1003]"

definition options1 :: "mode \<Rightarrow> int \<Rightarrow> int \<Rightarrow> Options" where
  "options1 m threshold retries =
     \<lparr>apiKey = ''sk_dev_test'', baseUrl = ''http://localhost:3001'', mode = m,
      batchInterval = 60000, batchSize = threshold, maxRetries = retries, disabled = False,
      onError = Some (\<lambda>e. None)\<rparr>"

definition always :: "nat \<Rightarrow> json option \<Rightarrow> fetch" where
  "always st b = (\<lambda>k req. Resolved \<lparr>status = st, json_body = b\<rparr>)"

definition fail_then_ok :: fetch where
  "fail_then_ok = (\<lambda>k req. if k = 0 then Rejected (Error ''Network error'')
                   else Resolved \<lparr>status = 200, json_body = None\<rparr>)"

definition idle :: Synquer where
  "idle = \<lparr>buffer = [], flushTimer = False, flushing = False, shutdownCalled = False\<rparr>"

definition world0 :: world where
  "world0 = \<lparr>calls = 0, requests = [], reported = [], delays = [], maxArguments = 125000\<rparr>"

text \<open>A buffer of 200000 logged events, more than the 125000 arguments the engine of
  \<open>world0\<close> accepts in one call.\<close>

definition backlog :: "IngestEvent list" where
  "backlog = replicate 200000 (event0 ''A'' job_event 1001)"

text \<open>The same configuration with the client disabled; a transport that answers 503, then
  401; and a client with a flush in flight that has made one attempt, after which another job
  has completed.\<close>

definition options_disabled :: Options where
  "options_disabled = (options1 per_job 100 2)\<lparr>disabled := True\<rparr>"


definition in_flight :: Synquer where
  "in_flight = \<lparr>buffer = jobB, flushTimer = True, flushing = True, shutdownCalled = False\<rparr>"

definition world1 :: world where
  "world1 = attempted (batch_request (options1 batch 100 3) jobA) world0"

section \<open>Properties of the job\<close>

lemmas Job_defs = Job_event_def Job_done_def Job_failed_def Job_skip_def Job_review_def
  Date_now_def start_timestamp_def







lemma well_timed_new:
  "mono clk \<Longrightarrow> well_timed clk (Job_new clk ident options t)"
  by (simp add: well_timed_def Job_new_def Date_now_def monoD)

lemma well_timed_call:
  assumes "mono clk" and "well_timed clk (j, t)"
  shows "well_timed clk (fst (Job_call clk c (j, t)))"
proof -
  from assms(1) have "clk t \<le> clk (Suc t)" by (simp add: monoD)
  then have up: "\<And>x. x \<le> clk t \<Longrightarrow> x \<le> clk (Suc t)" by simp
  from assms(2) show ?thesis
    by (cases c)
       (auto simp: Job_defs well_timed_def sorted_append list_all_iff Let_def up
             split: list.splits)
qed

lemma hd_call: "events j \<noteq> [] \<Longrightarrow> hd (events (fst (fst (Job_call clk c (j, t))))) = hd (events j)"
  by (cases c) (auto simp: Job_defs Let_def split: list.splits)

lemma Job_calls_invariant:
  assumes "mono clk" and "well_timed clk jt"
  shows "well_timed clk (fst (Job_calls clk cs jt)) \<and>
         hd (events (fst (fst (Job_calls clk cs jt)))) = hd (events (fst jt))"
  using assms(2)
proof (induction cs arbitrary: jt)
  case Nil
  then show ?case by simp
next
  case (Cons c cs)
  obtain j t where jt: "jt = (j, t)" by (cases jt)
  from well_timed_call [OF assms(1)] Cons.prems jt
  have wt: "well_timed clk (fst (Job_call clk c jt))" by simp
  from Cons.prems jt have "events j \<noteq> []" by (simp add: well_timed_def)
  then have "hd (events (fst (fst (Job_call clk c jt)))) = hd (events (fst jt))"
    using jt by (simp add: hd_call)
  with Cons.IH [OF wt] show ?case
    by (simp add: split_beta Let_def)
qed

lemmas scenario_defs = clock0_def options0_def calls0_def Job_run_def Job_new_def Job_defs
  started_data_def spread_if_def spread_def truthy_def









text \<open>
  Claim C9.  With a clock that never goes back, whatever calls are made on a job: its
  events are not empty, the first one is the started event pushed by the constructor, and
  the timestamps are in non-decreasing order.
\<close>

theorem Job_started_first_timestamps_sorted:
  assumes "mono clk"
  shows "events (fst (fst (Job_run clk ident options t cs))) \<noteq> [] \<and>
         hd (events (fst (fst (Job_run clk ident options t cs)))) =
           \<lparr>jobId = ident, externalId = opt_externalId options, type = job_started,
            timestamp = clk t, data = Some (started_data options)\<rparr> \<and>
         sorted (map timestamp (events (fst (fst (Job_run clk ident options t cs)))))"
proof -
  from Job_calls_invariant [OF assms well_timed_new [OF assms]]
  have "well_timed clk (fst (Job_run clk ident options t cs))"
    and "hd (events (fst (fst (Job_run clk ident options t cs)))) =
         hd (events (fst (Job_new clk ident options t)))"
    by (simp_all add: Job_run_def)
  then show ?thesis
    by (simp add: well_timed_def split_beta Job_new_def Date_now_def)
qed

theorem Job_started_first_timestamps_sorted_witness:
  "mono clock0 \<and>
   hd (events (fst (fst (Job_run clock0 ''job-1'' options0 0 calls0)))) =
     \<lparr>jobId = ''job-1'', externalId = None, type = job_started, timestamp = 1000,
      data = Some [(''jobType'', JStr ''order_sync'')]\<rparr> \<and>
   map timestamp (events (fst (fst (Job_run clock0 ''job-1'' options0 0 calls0)))) =
     [1000, 1001, 1002] \<and>
   sorted (map timestamp (events (fst (fst (Job_run clock0 ''job-1'' options0 0 calls0)))))"
proof -
  have m: "mono clock0" by (simp add: mono_def clock0_def)
  have t: "map timestamp (events (fst (fst (Job_run clock0 ''job-1'' options0 0 calls0)))) =
     [1000, 1001, 1002]"
    by (simp add: scenario_defs)
  have d: "started_data options0 = [(''jobType'', JStr ''order_sync'')]"
    by (simp add: scenario_defs)
  from Job_started_first_timestamps_sorted [OF m, of "''job-1''" options0 0 calls0] m t d
  show ?thesis by (simp add: clock0_def options0_def)
qed

section \<open>Properties of sending\<close>

lemma backoff_fields [simp]:
  "calls (backoff opts a w) = calls w" "requests (backoff opts a w) = requests w"
  "reported (backoff opts a w) = reported w" "maxArguments (backoff opts a w) = maxArguments w"
  by (simp_all add: backoff_def)

lemma attempted_fields [simp]:
  "calls (attempted req w) = Suc (calls w)" "requests (attempted req w) = requests w @ [req]"
  "reported (attempted req w) = reported w" "delays (attempted req w) = delays w"
  "maxArguments (attempted req w) = maxArguments w"
  by (simp_all add: attempted_def)

lemma outcome_cases: "success r \<or> terminal_failure r \<or> retried r"
  by (auto simp: success_def terminal_failure_def retryable_failure_def null_body_failure_def
        retried_def split: fetch_result.splits)

lemma terminal_error_null:
  "json_body response = Some JNull \<Longrightarrow> terminal_error response = Inl TypeError_null"
  by (simp add: terminal_error_def error_detail_def)

lemma terminal_error_built:
  "json_body response \<noteq> Some JNull \<Longrightarrow> \<exists>e. terminal_error response = Inr e"
  by (auto simp: terminal_error_def error_detail_def split: option.splits json.splits)

lemma retry_loop_stop:
  "\<not> int attempt \<le> maxRetries opts \<Longrightarrow>
   retry_loop opts fetch req attempt lastError w = (Exited lastError, w)"
  by (simp add: retry_loop.simps [of opts fetch req attempt])

lemma retry_loop_success:
  "int attempt \<le> maxRetries opts \<Longrightarrow> success (fetch (calls w) req) \<Longrightarrow>
   retry_loop opts fetch req attempt lastError w = (Returned, attempted req w)"
  by (auto simp: retry_loop.simps [of opts fetch req attempt] success_def attempted_def
           split: fetch_result.splits)

lemma retry_loop_terminal:
  "int attempt \<le> maxRetries opts \<Longrightarrow> terminal_failure (fetch (calls w) req) \<Longrightarrow>
   retry_loop opts fetch req attempt lastError w =
     (Exited (Some (attempt_error (fetch (calls w) req))), attempted req w)"
proof -
  assume le: "int attempt \<le> maxRetries opts"
    and t: "terminal_failure (fetch (calls w) req)"
  from t obtain response where r: "fetch (calls w) req = Resolved response"
    and n: "\<not> (ok response \<or> status response = 207)"
    and st: "status response = 400 \<or> status response = 401"
    and b: "json_body response \<noteq> Some JNull"
    by (auto simp: terminal_failure_def split: fetch_result.splits)
  from terminal_error_built [OF b] obtain e where e: "terminal_error response = Inr e" ..
  from le r n st e show ?thesis
    by (simp add: retry_loop.simps [of opts fetch req attempt] attempted_def attempt_error_def)
qed

lemma retry_loop_retry:
  "int attempt \<le> maxRetries opts \<Longrightarrow> retried (fetch (calls w) req) \<Longrightarrow>
   retry_loop opts fetch req attempt lastError w =
     retry_loop opts fetch req (Suc attempt) (Some (attempt_error (fetch (calls w) req)))
       (backoff opts attempt (attempted req w))"
  by (auto simp: retry_loop.simps [of opts fetch req attempt] retried_def retryable_failure_def
                 null_body_failure_def attempted_def attempt_error_def terminal_error_null
           split: fetch_result.splits)

lemma retried_not_success: "retried r \<Longrightarrow> \<not> success r"
  by (auto simp: success_def retried_def retryable_failure_def null_body_failure_def
           split: fetch_result.splits)

lemma replicate_step: "Suc c \<le> n \<Longrightarrow> x # replicate (n - Suc c) x = replicate (n - c) x"
  by (metis Suc_diff_Suc Suc_le_lessD replicate_Suc)

text \<open>Whatever the transport answers: calls and requests grow together, nothing is reported
  inside the loop, and the loop makes at most as many attempts as remain.\<close>

lemma retry_loop_frame:
  "calls w \<le> calls (snd (retry_loop opts fetch req attempt lastError w)) \<and>
   requests (snd (retry_loop opts fetch req attempt lastError w)) =
     requests w @ replicate (calls (snd (retry_loop opts fetch req attempt lastError w)) - calls w) req \<and>
   reported (snd (retry_loop opts fetch req attempt lastError w)) = reported w \<and>
   maxArguments (snd (retry_loop opts fetch req attempt lastError w)) = maxArguments w \<and>
   int (calls (snd (retry_loop opts fetch req attempt lastError w))) \<le>
     int (calls w) + max 0 (maxRetries opts + 1 - int attempt)"
proof (induction "nat (maxRetries opts + 1 - int attempt)" arbitrary: attempt lastError w)
  case 0
  then have "\<not> int attempt \<le> maxRetries opts" by simp
  then show ?case by (simp add: retry_loop_stop)
next
  case (Suc n)
  then have le: "int attempt \<le> maxRetries opts" by simp
  from Suc.hyps(2) have n: "n = nat (maxRetries opts + 1 - int (Suc attempt))" by simp
  consider "success (fetch (calls w) req)" | "terminal_failure (fetch (calls w) req)"
    | "retried (fetch (calls w) req)" using outcome_cases by blast
  then show ?case
  proof cases
    case 1
    with le show ?thesis by (simp add: retry_loop_success)
  next
    case 2
    with le show ?thesis by (simp add: retry_loop_terminal)
  next
    case 3
    from Suc.hyps(1) [OF n, where lastError = "Some (attempt_error (fetch (calls w) req))"
        and w = "backoff opts attempt (attempted req w)"] le
    show ?thesis
      by (simp add: retry_loop_retry [where attempt = attempt and opts = opts and fetch = fetch
        and w = w and req = req, OF le 3] replicate_step)
  qed
qed

text \<open>How the loop is left.\<close>

lemma retry_loop_exit:
  "(case fst (retry_loop opts fetch req attempt lastError w) of
      Returned \<Rightarrow> calls w < calls (snd (retry_loop opts fetch req attempt lastError w)) \<and>
          success (fetch (calls (snd (retry_loop opts fetch req attempt lastError w)) - 1) req)
    | Exited x \<Rightarrow>
        (if int attempt \<le> maxRetries opts
         then calls w < calls (snd (retry_loop opts fetch req attempt lastError w)) \<and>
              \<not> success (fetch (calls (snd (retry_loop opts fetch req attempt lastError w)) - 1) req) \<and>
              x = Some (attempt_error
                   (fetch (calls (snd (retry_loop opts fetch req attempt lastError w)) - 1) req))
         else x = lastError \<and> snd (retry_loop opts fetch req attempt lastError w) = w))"
proof (induction "nat (maxRetries opts + 1 - int attempt)" arbitrary: attempt lastError w)
  case 0
  then have "\<not> int attempt \<le> maxRetries opts" by simp
  then show ?case by (simp add: retry_loop_stop)
next
  case (Suc n)
  then have le: "int attempt \<le> maxRetries opts" by simp
  from Suc.hyps(2) have n: "n = nat (maxRetries opts + 1 - int (Suc attempt))" by simp
  consider "success (fetch (calls w) req)" | "terminal_failure (fetch (calls w) req)"
    | "retried (fetch (calls w) req)" using outcome_cases by blast
  then show ?case
  proof cases
    case 1
    with le show ?thesis by (simp add: retry_loop_success)
  next
    case 2
    then have "\<not> success (fetch (calls w) req)"
      by (auto simp: success_def terminal_failure_def split: fetch_result.splits)
    with 2 le show ?thesis by (simp add: retry_loop_terminal)
  next
    case 3
    then have ns: "\<not> success (fetch (calls w) req)"
      by (rule retried_not_success)
    let ?w1 = "backoff opts attempt (attempted req w)"
    let ?e = "Some (attempt_error (fetch (calls w) req))"
    from retry_loop_frame [where w = ?w1 and opts = opts and fetch = fetch and req = req
        and attempt = "Suc attempt" and lastError = ?e]
    have mono: "Suc (calls w) \<le> calls (snd (retry_loop opts fetch req (Suc attempt) ?e ?w1))"
      by simp
    from Suc.hyps(1) [OF n, where lastError = ?e and w = ?w1] le ns mono
    show ?thesis
      by (auto simp: retry_loop_retry [where attempt = attempt and opts = opts and fetch = fetch
        and w = w and req = req, OF le 3] split: loop_exit.splits if_splits)
  qed
qed

lemma report_failure_fields [simp]:
  "calls (snd (report_failure opts e w)) = calls w"
  "requests (snd (report_failure opts e w)) = requests w"
  "delays (snd (report_failure opts e w)) = delays w"
  "reported (snd (report_failure opts e w)) =
     reported w @ observed opts e"
  "maxArguments (snd (report_failure opts e w)) = maxArguments w"
  "fst (report_failure opts e w) \<noteq> Inr u"
  by (auto simp: report_failure_def observed_def Let_def split: option.splits)

lemma report_failure_fst: "fst (report_failure opts e w) = fst (report_failure opts e w')"
  by (auto simp: report_failure_def Let_def split: option.splits)

text \<open>The send operation, described by its last attempt.\<close>

lemma send_frame:
  "calls w \<le> calls (snd (Synquer_send opts fetch evs w)) \<and>
   requests (snd (Synquer_send opts fetch evs w)) =
     requests w @ replicate (calls (snd (Synquer_send opts fetch evs w)) - calls w)
                    (batch_request opts evs) \<and>
   maxArguments (snd (Synquer_send opts fetch evs w)) = maxArguments w \<and>
   int (calls (snd (Synquer_send opts fetch evs w))) \<le> int (calls w) + max 0 (maxRetries opts + 1)"
  using retry_loop_frame [where w = w and opts = opts and fetch = fetch
      and req = "batch_request opts evs" and attempt = 0 and lastError = None]
  by (auto simp: Synquer_send_def split: prod.splits loop_exit.splits option.splits)

lemma send_skipped:
  "disabled opts \<or> evs = [] \<or> maxRetries opts < 0 \<Longrightarrow>
   Synquer_send opts fetch evs w = (Inr (), w)"
  by (auto simp: Synquer_send_def retry_loop_stop)

lemma send_outcome:
  assumes "\<not> disabled opts" and "evs \<noteq> []" and "0 \<le> maxRetries opts"
  shows "calls w < calls (snd (Synquer_send opts fetch evs w)) \<and>
    (if success (fetch (calls (snd (Synquer_send opts fetch evs w)) - 1) (batch_request opts evs))
     then fst (Synquer_send opts fetch evs w) = Inr () \<and>
          reported (snd (Synquer_send opts fetch evs w)) = reported w
     else fst (Synquer_send opts fetch evs w) =
            fst (report_failure opts (attempt_error
              (fetch (calls (snd (Synquer_send opts fetch evs w)) - 1) (batch_request opts evs))) w) \<and>
          reported (snd (Synquer_send opts fetch evs w)) =
            reported w @ observed opts (attempt_error
              (fetch (calls (snd (Synquer_send opts fetch evs w)) - 1) (batch_request opts evs))))"
proof -
  let ?req = "batch_request opts evs"
  define x where "x = fst (retry_loop opts fetch ?req 0 None w)"
  define w' where "w' = snd (retry_loop opts fetch ?req 0 None w)"
  have loop: "retry_loop opts fetch ?req 0 None w = (x, w')" by (simp add: x_def w'_def)
  from retry_loop_frame [where w = w and opts = opts and fetch = fetch
      and req = ?req and attempt = 0 and lastError = None]
  have rep: "reported w' = reported w" by (simp add: w'_def)
  from retry_loop_exit [where w = w and opts = opts and fetch = fetch
      and req = ?req and attempt = 0 and lastError = None] assms(3)
  have ex: "case x of Returned \<Rightarrow> calls w < calls w' \<and> success (fetch (calls w' - 1) ?req)
     | Exited y \<Rightarrow> calls w < calls w' \<and> \<not> success (fetch (calls w' - 1) ?req) \<and>
         y = Some (attempt_error (fetch (calls w' - 1) ?req))"
    unfolding x_def [symmetric] w'_def [symmetric] by (simp split: loop_exit.splits)
  have sc: "calls (snd (Synquer_send opts fetch evs w)) = calls w'"
    using assms(1,2) loop
    by (simp add: Synquer_send_def split: loop_exit.splits option.splits)
  show ?thesis
  proof (cases x)
    case Returned
    with loop assms(1,2) have "fst (Synquer_send opts fetch evs w) = Inr ()"
      and "reported (snd (Synquer_send opts fetch evs w)) = reported w'"
      by (simp_all add: Synquer_send_def)
    with ex Returned rep sc show ?thesis by simp
  next
    case (Exited y)
    with ex obtain e where y: "y = Some e"
      and e: "e = attempt_error (fetch (calls w' - 1) ?req)" by simp
    with loop Exited assms(1,2)
    have "fst (Synquer_send opts fetch evs w) = fst (report_failure opts e w)"
      and "reported (snd (Synquer_send opts fetch evs w)) =
           reported w' @ observed opts e"
      by (simp_all add: Synquer_send_def report_failure_fst [where w = w' and w' = w])
    with ex Exited rep sc e show ?thesis by simp
  qed
qed

lemma retry_loop_all_retryable:
  assumes "\<forall>k. retryable_failure (fetch k req)"
  shows "calls (snd (retry_loop opts fetch req attempt lastError w)) =
           calls w + nat (maxRetries opts + 1 - int attempt)"
proof (induction "nat (maxRetries opts + 1 - int attempt)" arbitrary: attempt lastError w)
  case 0
  then have "\<not> int attempt \<le> maxRetries opts" by simp
  with 0 show ?case by (simp add: retry_loop_stop)
next
  case (Suc n)
  then have le: "int attempt \<le> maxRetries opts" by simp
  from Suc.hyps(2) have n: "n = nat (maxRetries opts + 1 - int (Suc attempt))" by simp
  from assms have r: "retried (fetch (calls w) req)" by (simp add: retried_def)
  from Suc.hyps(1) [OF n, where lastError = "Some (attempt_error (fetch (calls w) req))"
        and w = "backoff opts attempt (attempted req w)"] Suc.hyps(2) [symmetric] n
  show ?case
    by (simp add: retry_loop_retry [where attempt = attempt and opts = opts and fetch = fetch
        and w = w and req = req, OF le r])
qed

lemma retryable_not_success: "retryable_failure r \<Longrightarrow> \<not> success r"
  by (auto simp: success_def retryable_failure_def split: fetch_result.splits)

lemma terminal_not_ok:
  "status response = 400 \<or> status response = 401 \<Longrightarrow> json_body response \<noteq> Some JNull \<Longrightarrow>
   terminal_failure (Resolved response)"
  by (auto simp: terminal_failure_def ok_def)

lemma send_first_terminal:
  assumes "\<not> disabled opts" and "evs \<noteq> []" and "0 \<le> maxRetries opts"
    and "terminal_failure (fetch (calls w) (batch_request opts evs))"
  shows "Synquer_send opts fetch evs w =
           report_failure opts (attempt_error (fetch (calls w) (batch_request opts evs)))
             (attempted (batch_request opts evs) w)"
proof -
  from assms(3) have "int 0 \<le> maxRetries opts" by simp
  from retry_loop_terminal [where fetch = fetch and w = w and req = "batch_request opts evs"
      and lastError = None, OF this assms(4)] assms(1,2)
  show ?thesis by (simp add: Synquer_send_def)
qed

lemma send_first_success:
  assumes "\<not> disabled opts" and "evs \<noteq> []" and "0 \<le> maxRetries opts"
    and "success (fetch (calls w) (batch_request opts evs))"
  shows "Synquer_send opts fetch evs w = (Inr (), attempted (batch_request opts evs) w)"
proof -
  from assms(3) have "int 0 \<le> maxRetries opts" by simp
  from retry_loop_success [where fetch = fetch and w = w and req = "batch_request opts evs"
      and lastError = None, OF this assms(4)] assms(1,2)
  show ?thesis by (simp add: Synquer_send_def)
qed

lemma send_failed_attempted:
  assumes "fst (Synquer_send opts fetch evs w) = Inl e"
  shows "\<not> disabled opts \<and> evs \<noteq> [] \<and> 0 \<le> maxRetries opts"
proof (rule ccontr)
  assume "\<not> ?thesis"
  then have "disabled opts \<or> evs = [] \<or> maxRetries opts < 0" by auto
  from send_skipped [OF this] assms show False by simp
qed

lemma send_succeeded:
  assumes "fst (Synquer_send opts fetch evs w) = Inr ()"
    and "\<not> disabled opts" and "evs \<noteq> []" and "0 \<le> maxRetries opts"
  shows "calls w < calls (snd (Synquer_send opts fetch evs w)) \<and>
         success (fetch (calls (snd (Synquer_send opts fetch evs w)) - 1) (batch_request opts evs)) \<and>
         last (requests (snd (Synquer_send opts fetch evs w))) = batch_request opts evs \<and>
         reported (snd (Synquer_send opts fetch evs w)) = reported w"
proof -
  let ?w' = "snd (Synquer_send opts fetch evs w)"
  let ?req = "batch_request opts evs"
  from send_outcome [OF assms(2-4), where fetch = fetch and w = w]
  have lt: "calls w < calls ?w'" and
    alt: "if success (fetch (calls ?w' - 1) ?req)
     then fst (Synquer_send opts fetch evs w) = Inr () \<and> reported ?w' = reported w
     else fst (Synquer_send opts fetch evs w) =
            fst (report_failure opts (attempt_error (fetch (calls ?w' - 1) ?req)) w) \<and>
          reported ?w' = reported w @ observed opts (attempt_error (fetch (calls ?w' - 1) ?req))"
    by simp_all
  have s: "success (fetch (calls ?w' - 1) ?req)"
  proof (rule ccontr)
    assume "\<not> ?thesis"
    with alt assms(1)
    have "fst (report_failure opts (attempt_error (fetch (calls ?w' - 1) ?req)) w) = Inr ()"
      by simp
    then show False by simp
  qed
  with alt have rep: "reported ?w' = reported w" by simp
  from send_frame [where w = w and opts = opts and fetch = fetch and evs = evs]
  have "requests ?w' = requests w @ replicate (calls ?w' - calls w) ?req" by simp
  moreover from lt have "replicate (calls ?w' - calls w) ?req \<noteq> []" by simp
  ultimately have "last (requests ?w') = ?req" by simp
  with lt s rep show ?thesis by simp
qed

lemma send_failed:
  assumes "fst (Synquer_send opts fetch evs w) = Inl e"
  shows "calls w < calls (snd (Synquer_send opts fetch evs w)) \<and>
         \<not> success (fetch (calls (snd (Synquer_send opts fetch evs w)) - 1) (batch_request opts evs)) \<and>
         reported (snd (Synquer_send opts fetch evs w)) =
           reported w @ observed opts (attempt_error
             (fetch (calls (snd (Synquer_send opts fetch evs w)) - 1) (batch_request opts evs)))"
proof -
  from send_failed_attempted [OF assms]
  have en: "\<not> disabled opts" "evs \<noteq> []" "0 \<le> maxRetries opts" by simp_all
  from send_outcome [OF en, where fetch = fetch and w = w] assms
  show ?thesis by (auto split: if_splits)
qed




lemmas client_defs = event0_def jobA_def jobB_def options1_def always_def fail_then_ok_def
  idle_def world0_def

lemmas eval_defs = Synquer_send_def Synquer_flush_def Synquer_sendFn_def Synquer_shutdown_def
  retry_loop.simps attempted_def backoff_def report_failure_def batch_request_def
  push_events_def ensureFlushTimer_def unshift_def terminal_error_def retryable_error_def
  error_detail_def js_String_def show_nat.simps ok_def observed_def attempt_error_def
  success_def terminal_failure_def retryable_failure_def null_body_failure_def Let_def

text \<open>
  Claim C3, as stated, fails on a disabled client: with \<open>maxRetries = 2\<close>, two events and
  a transport that always answers 500, \<^verbatim>\<open>_send\<close> returns at its first statement, makes no
  attempt and reports nothing.
\<close>

theorem send_disabled_counterexample:
  "jobA \<noteq> [] \<and> 0 \<le> maxRetries options_disabled \<and>
   retryable_failure (always 500 None 0 (batch_request options_disabled jobA)) \<and>
   Synquer_send options_disabled (always 500 None) jobA world0 = (Inr (), world0) \<and>
   calls (snd (Synquer_send options_disabled (always 500 None) jobA world0)) \<noteq>
     calls world0 + (nat (maxRetries options_disabled) + 1)"
  by (simp add: options_disabled_def client_defs Synquer_send_def retryable_failure_def ok_def)

text \<open>
  Claim C3, amended.  On a client that is not disabled, with \<open>maxRetries = N \<ge> 0\<close> and a
  non-empty list of events: if every attempt is answered by a failure that the loop
  retries (a status other than 2xx, 207, 400 and 401, or a rejected \<^verbatim>\<open>fetch\<close>), one
  call of \<^verbatim>\<open>_send\<close> makes exactly \<open>N + 1\<close> calls of \<^verbatim>\<open>fetch\<close>, all with the same
  request, and then reports and throws the error of the last attempt.
\<close>

theorem send_retries_exhausted:
  assumes "\<not> disabled opts" and "evs \<noteq> []" and "0 \<le> maxRetries opts"
    and "\<forall>k. retryable_failure (fetch k (batch_request opts evs))"
  shows "calls (snd (Synquer_send opts fetch evs w)) = calls w + (nat (maxRetries opts) + 1) \<and>
         requests (snd (Synquer_send opts fetch evs w)) =
           requests w @ replicate (nat (maxRetries opts) + 1) (batch_request opts evs) \<and>
         fst (Synquer_send opts fetch evs w) =
           fst (report_failure opts
             (attempt_error (fetch (calls w + nat (maxRetries opts)) (batch_request opts evs))) w) \<and>
         reported (snd (Synquer_send opts fetch evs w)) =
           reported (snd (report_failure opts
             (attempt_error (fetch (calls w + nat (maxRetries opts)) (batch_request opts evs))) w))"
proof -
  let ?req = "batch_request opts evs"
  let ?w' = "snd (Synquer_send opts fetch evs w)"
  have "calls (snd (retry_loop opts fetch ?req 0 None w)) = calls w + nat (maxRetries opts + 1)"
    using retry_loop_all_retryable [where fetch = fetch and req = ?req and opts = opts
      and attempt = 0 and lastError = None and w = w, OF assms(4)] by simp
  moreover have "calls ?w' = calls (snd (retry_loop opts fetch ?req 0 None w))"
    using assms(1,2) by (simp add: Synquer_send_def split: prod.splits loop_exit.splits option.splits)
  ultimately have c: "calls ?w' = calls w + (nat (maxRetries opts) + 1)"
    using assms(3) by (simp add: nat_add_distrib)
  from assms(4) have "\<not> success (fetch (calls ?w' - 1) ?req)"
    by (simp add: retryable_not_success)
  with send_outcome [OF assms(1-3), where fetch = fetch and w = w]
    send_frame [where w = w and opts = opts and fetch = fetch and evs = evs] c
  show ?thesis by simp
qed

theorem send_retries_exhausted_witness:
  "calls (snd (Synquer_send (options1 per_job 100 2) (always 500 None) jobA world0)) = 3 \<and>
   fst (Synquer_send (options1 per_job 100 2) (always 500 None) jobA world0) =
     Inl (Error ''Synquer API error 500'') \<and>
   reported (snd (Synquer_send (options1 per_job 100 2) (always 500 None) jobA world0)) =
     [Error ''Synquer API error 500'']"
proof -
  let ?opts = "options1 per_job 100 2"
  have h1: "\<not> disabled ?opts" and h2: "jobA \<noteq> []" and h3: "0 \<le> maxRetries ?opts"
    by (simp_all add: client_defs)
  have h4: "\<forall>k. retryable_failure (always 500 None k (batch_request ?opts jobA))"
    by (simp add: always_def retryable_failure_def ok_def)
  from send_retries_exhausted [where fetch = "always 500 None" and opts = ?opts and evs = jobA
      and w = world0, OF h1 h2 h3 h4]
  show ?thesis
    by (simp add: client_defs report_failure_def attempt_error_def retryable_error_def
          show_nat.simps)
qed

text \<open>
  Claim C4 is not what the code does for every 400 or 401.  The error of such a response is
  built inside the \<^verbatim>\<open>try\<close> block; when the body parses to \<^verbatim>\<open>null\<close>, reading its
  \<^verbatim>\<open>error\<close> field throws, the \<^verbatim>\<open>catch\<close> block takes the \<^verbatim>\<open>TypeError\<close> for a failed
  attempt, and the \<^verbatim>\<open>break\<close> is never reached.  With \<open>maxRetries = 3\<close> and a transport
  that always answers 400 with the body \<^verbatim>\<open>null\<close>, one send makes four attempts, waits
  three back-off delays, and reports the \<^verbatim>\<open>TypeError\<close>.
\<close>

theorem send_terminal_null_body_retried:
  "status \<lparr>status = 400, json_body = Some JNull\<rparr> = 400 \<and>
   always 400 (Some JNull) 0 (batch_request (options1 per_job 100 3) jobA) =
     Resolved \<lparr>status = 400, json_body = Some JNull\<rparr> \<and>
   calls (snd (Synquer_send (options1 per_job 100 3) (always 400 (Some JNull)) jobA world0)) = 4 \<and>
   delays (snd (Synquer_send (options1 per_job 100 3) (always 400 (Some JNull)) jobA world0)) =
     [1000, 2000, 4000] \<and>
   fst (Synquer_send (options1 per_job 100 3) (always 400 (Some JNull)) jobA world0) =
     Inl TypeError_null \<and>
   reported (snd (Synquer_send (options1 per_job 100 3) (always 400 (Some JNull)) jobA world0)) =
     [TypeError_null]"
  by (simp add: client_defs eval_defs)

section \<open>Properties of the buffer and of flush\<close>

lemma ensureFlushTimer_fields [simp]:
  "buffer (ensureFlushTimer s) = buffer s" "flushing (ensureFlushTimer s) = flushing s"
  "shutdownCalled (ensureFlushTimer s) = shutdownCalled s"
  "flushTimer (ensureFlushTimer s) = (flushTimer s \<or> \<not> shutdownCalled s)"
  by (auto simp: ensureFlushTimer_def)

lemma push_events_fields [simp]:
  "buffer (push_events evs s) = buffer s @ evs" "flushing (push_events evs s) = flushing s"
  "shutdownCalled (push_events evs s) = shutdownCalled s"
  "flushTimer (push_events evs s) = (flushTimer s \<or> \<not> shutdownCalled s)"
  by (simp_all add: push_events_def)

lemma fold_push_events_fields [simp]:
  "buffer (fold push_events conc s) = buffer s @ concat conc"
  "flushing (fold push_events conc s) = flushing s"
  "shutdownCalled (fold push_events conc s) = shutdownCalled s"
  "flushTimer (fold push_events conc s) = (flushTimer s \<or> (conc \<noteq> [] \<and> \<not> shutdownCalled s))"
  by (induction conc arbitrary: s) auto

lemma flush_guarded:
  "buffer s = [] \<or> flushing s \<Longrightarrow> Synquer_flush opts fetch conc (s, w) = (Inr (), s, w)"
  by (auto simp: Synquer_flush_def)

text \<open>A flush that starts: what it returns and each field of the state it leaves.\<close>

lemma flush_started:
  assumes "buffer s \<noteq> []" and "\<not> flushing s"
  shows "fst (Synquer_flush opts fetch conc (s, w)) =
           (case fst (Synquer_send opts fetch (buffer s) w) of
              Inl _ \<Rightarrow> if length (buffer s) \<le> maxArguments w then Inr () else Inl RangeError
            | Inr _ \<Rightarrow> Inr ())"
    and "snd (snd (Synquer_flush opts fetch conc (s, w))) = snd (Synquer_send opts fetch (buffer s) w)"
    and "buffer (fst (snd (Synquer_flush opts fetch conc (s, w)))) =
           (case fst (Synquer_send opts fetch (buffer s) w) of
              Inl _ \<Rightarrow> if length (buffer s) \<le> maxArguments w
                       then buffer s @ concat conc else concat conc
            | Inr _ \<Rightarrow> concat conc)"
    and "\<not> flushing (fst (snd (Synquer_flush opts fetch conc (s, w))))"
    and "shutdownCalled (fst (snd (Synquer_flush opts fetch conc (s, w)))) = shutdownCalled s"
    and "flushTimer (fst (snd (Synquer_flush opts fetch conc (s, w)))) =
           (flushTimer s \<or> (conc \<noteq> [] \<and> \<not> shutdownCalled s))"
proof -
  have lim: "maxArguments (snd (Synquer_send opts fetch (buffer s) w)) = maxArguments w"
    using send_frame [where w = w and opts = opts and fetch = fetch and evs = "buffer s"]
    by simp
  obtain r w' where snd: "Synquer_send opts fetch (buffer s) w = (r, w')" by (metis surj_pair)
  with lim have lim': "maxArguments w' = maxArguments w" by simp
  from assms snd lim'
  show "fst (Synquer_flush opts fetch conc (s, w)) =
           (case fst (Synquer_send opts fetch (buffer s) w) of
              Inl _ \<Rightarrow> if length (buffer s) \<le> maxArguments w then Inr () else Inl RangeError
            | Inr _ \<Rightarrow> Inr ())"
    and "snd (snd (Synquer_flush opts fetch conc (s, w))) = snd (Synquer_send opts fetch (buffer s) w)"
    and "buffer (fst (snd (Synquer_flush opts fetch conc (s, w)))) =
           (case fst (Synquer_send opts fetch (buffer s) w) of
              Inl _ \<Rightarrow> if length (buffer s) \<le> maxArguments w
                       then buffer s @ concat conc else concat conc
            | Inr _ \<Rightarrow> concat conc)"
    and "\<not> flushing (fst (snd (Synquer_flush opts fetch conc (s, w))))"
    and "shutdownCalled (fst (snd (Synquer_flush opts fetch conc (s, w)))) = shutdownCalled s"
    and "flushTimer (fst (snd (Synquer_flush opts fetch conc (s, w)))) =
           (flushTimer s \<or> (conc \<noteq> [] \<and> \<not> shutdownCalled s))"
    by (auto simp: Synquer_flush_def unshift_def Let_def split: sum.splits)
qed

lemma sendFn_per_job:
  "mode opts = per_job \<Longrightarrow>
   Synquer_sendFn opts fetch conc evs (s, w) = (Inr (), s, snd (Synquer_send opts fetch evs w))"
  by (auto simp: Synquer_sendFn_def split: prod.splits sum.splits)

lemma Job_invoke_per_job_resolves:
  assumes "mode opts = per_job"
  shows "fst (Job_invoke clk opts fetch conc c (jt, sw)) = Inr ()"
proof (cases "Job_call clk c jt")
  case (Pair jt' p)
  obtain s w where sw: "sw = (s, w)" by (cases sw)
  show ?thesis
  proof (cases p)
    case None
    with Pair show ?thesis by (simp add: Job_invoke_def)
  next
    case (Some evs)
    with Pair sw sendFn_per_job [OF assms, of fetch conc evs s w] show ?thesis
      by (simp add: Job_invoke_def)
  qed
qed

lemma sendFn_batch:
  "mode opts = batch \<Longrightarrow>
   Synquer_sendFn opts fetch conc evs (s, w) =
     (if batchSize opts \<le> int (length (buffer s @ evs))
      then Synquer_flush opts fetch conc (push_events evs s, w)
      else (Inr (), push_events evs s, w))"
  by (simp add: Synquer_sendFn_def Let_def)

lemma backlog_length [simp]: "length backlog = 200000" "backlog \<noteq> []"
  by (auto simp: backlog_def)

text \<open>
  Claim C1 is not what the code does for every batch.  The events are put back by
  \<^verbatim>\<open>this._buffer.unshift(...events)\<close>, a call with one argument for each event.  With
  200000 events in the buffer, an engine that accepts 125000 arguments and a delivery that
  fails, the call throws: the flush rejects, the detached events are in the buffer no more,
  and the next flush finds it empty and sends nothing.
\<close>

theorem flush_restore_overflow_loses_events:
  "fst (Synquer_send (options1 batch 1000000 0) fail_then_ok backlog world0) =
     Inl (Error ''Network error'') \<and>
   maxArguments world0 < length backlog \<and>
   fst (Synquer_flush (options1 batch 1000000 0) fail_then_ok []
     (idle\<lparr>buffer := backlog\<rparr>, world0)) = Inl RangeError \<and>
   buffer (fst (snd (Synquer_flush (options1 batch 1000000 0) fail_then_ok []
     (idle\<lparr>buffer := backlog\<rparr>, world0)))) = [] \<and>
   \<not> flushing (fst (snd (Synquer_flush (options1 batch 1000000 0) fail_then_ok []
     (idle\<lparr>buffer := backlog\<rparr>, world0)))) \<and>
   snd (snd (Synquer_flush (options1 batch 1000000 0) fail_then_ok []
     (snd (Synquer_flush (options1 batch 1000000 0) fail_then_ok []
        (idle\<lparr>buffer := backlog\<rparr>, world0))))) =
     snd (snd (Synquer_flush (options1 batch 1000000 0) fail_then_ok []
        (idle\<lparr>buffer := backlog\<rparr>, world0)))"
proof -
  let ?opts = "options1 batch 1000000 0"
  let ?s = "idle\<lparr>buffer := backlog\<rparr>"
  let ?first = "Synquer_flush ?opts fail_then_ok [] (?s, world0)"
  have f: "fst (Synquer_send ?opts fail_then_ok backlog world0) = Inl (Error ''Network error'')"
    by (simp add: options1_def fail_then_ok_def world0_def Synquer_send_def retry_loop.simps
          attempted_def backoff_def report_failure_def batch_request_def Let_def)
  have lim: "maxArguments world0 < length backlog" by (simp add: world0_def)
  have ne: "buffer ?s \<noteq> []" and nf: "\<not> flushing ?s" by (simp_all add: idle_def)
  from flush_started(1,3,4) [OF ne nf, where opts = ?opts and fetch = fail_then_ok
      and conc = "[]" and w = world0] f lim
  have r: "fst ?first = Inl RangeError" and b: "buffer (fst (snd ?first)) = []"
    and g: "\<not> flushing (fst (snd ?first))" by simp_all
  from b flush_guarded [where s = "fst (snd ?first)" and w = "snd (snd ?first)"
      and opts = ?opts and fetch = fail_then_ok and conc = "[]"]
  have "Synquer_flush ?opts fail_then_ok [] (snd ?first) = (Inr (), snd ?first)"
    by simp
  then have "snd (snd (Synquer_flush ?opts fail_then_ok [] (snd ?first))) = snd (snd ?first)"
    by simp
  with f lim r b g show ?thesis by simp
qed




text \<open>
  Claim C10 is not what the code does for every batch.  The \<^verbatim>\<open>catch\<close> block of flush puts
  the events back with a call that takes one argument for each of them, and what that call
  throws nothing catches.  With 200000 events in the buffer, an engine that accepts 125000
  arguments and a delivery that fails, the flush rejects, and so does the call of
  \<^verbatim>\<open>done\<close> on a job of a batch-mode client whose completion triggers the flush.  The
  guard is cleared, but the batch is not put back.
\<close>

theorem flush_rejects_on_restore_overflow:
  "fst (Job_invoke clock0 (options1 batch 1000 0) fail_then_ok [] (Done None)
     (Job_new clock0 ''job-1'' options0 0, idle\<lparr>buffer := backlog\<rparr>, world0)) =
     Inl RangeError \<and>
   buffer (fst (snd (snd (Job_invoke clock0 (options1 batch 1000 0) fail_then_ok [] (Done None)
     (Job_new clock0 ''job-1'' options0 0, idle\<lparr>buffer := backlog\<rparr>, world0))))) = [] \<and>
   \<not> flushing (fst (snd (snd (Job_invoke clock0 (options1 batch 1000 0) fail_then_ok []
     (Done None) (Job_new clock0 ''job-1'' options0 0, idle\<lparr>buffer := backlog\<rparr>, world0))))) \<and>
   reported (snd (snd (snd (Job_invoke clock0 (options1 batch 1000 0) fail_then_ok [] (Done None)
     (Job_new clock0 ''job-1'' options0 0, idle\<lparr>buffer := backlog\<rparr>, world0))))) =
     [Error ''Network error''] \<and>
   fst (Synquer_flush (options1 batch 1000 0) fail_then_ok []
     (idle\<lparr>buffer := backlog\<rparr>, world0)) = Inl RangeError"
  by (simp add: Job_invoke_def scenario_defs idle_def options1_def fail_then_ok_def world0_def
        eval_defs)

text \<open>
  Claim C6.  In per-job mode every call on a job resolves and leaves the client as it was,
  whatever the transport answers: the closure resolves after the send, and when the send
  fails the failure observer, if there is one, has been handed the error of the last
  attempt.
\<close>

theorem per_job_call_never_rejects:
  assumes "mode opts = per_job"
  shows "fst (Job_invoke clk opts fetch conc c (jt, s, w)) = Inr () \<and>
         fst (snd (snd (Job_invoke clk opts fetch conc c (jt, s, w)))) = s \<and>
         snd (snd (snd (Job_invoke clk opts fetch conc c (jt, s, w)))) =
           (case snd (Job_call clk c jt) of
              None \<Rightarrow> w | Some handed \<Rightarrow> snd (Synquer_send opts fetch handed w)) \<and>
         Synquer_sendFn opts fetch conc evs (s, w) =
           (Inr (), s, snd (Synquer_send opts fetch evs w)) \<and>
         (\<forall>e. fst (Synquer_send opts fetch evs w) = Inl e \<longrightarrow>
            reported (snd (Synquer_send opts fetch evs w)) =
              reported w @ observed opts (attempt_error
                (fetch (calls (snd (Synquer_send opts fetch evs w)) - 1) (batch_request opts evs))))"
proof -
  have "fst (snd (snd (Job_invoke clk opts fetch conc c (jt, s, w)))) = s"
    and "snd (snd (snd (Job_invoke clk opts fetch conc c (jt, s, w)))) =
           (case snd (Job_call clk c jt) of
              None \<Rightarrow> w | Some handed \<Rightarrow> snd (Synquer_send opts fetch handed w))"
    using assms
    by (auto simp: Job_invoke_def sendFn_per_job split: prod.splits option.splits)
  with Job_invoke_per_job_resolves [OF assms, of clk fetch conc c jt "(s, w)"] sendFn_per_job [OF assms]
    send_failed [where opts = opts and fetch = fetch and evs = evs and w = w]
  show ?thesis by simp
qed

theorem per_job_call_never_rejects_witness:
  "fst (Job_invoke clock0 (options1 per_job 100 1) (always 500 None) [] (Done None)
     (Job_new clock0 ''job-1'' options0 0, idle, world0)) = Inr () \<and>
   fst (Synquer_send (options1 per_job 100 1) (always 500 None) jobA world0) =
     Inl (Error ''Synquer API error 500'') \<and>
   Synquer_sendFn (options1 per_job 100 1) (always 500 None) [] jobA (idle, world0) =
     (Inr (), idle, snd (Synquer_send (options1 per_job 100 1) (always 500 None) jobA world0)) \<and>
   reported (snd (Synquer_send (options1 per_job 100 1) (always 500 None) jobA world0)) =
     [Error ''Synquer API error 500'']"
proof -
  let ?opts = "options1 per_job 100 1"
  have m: "mode ?opts = per_job" by (simp add: options1_def)
  have f: "fst (Synquer_send ?opts (always 500 None) jobA world0) = Inl (Error ''Synquer API error 500'')"
    by (simp add: client_defs eval_defs)
  have c: "calls (snd (Synquer_send ?opts (always 500 None) jobA world0)) = 2"
    by (simp add: client_defs eval_defs)
  from per_job_call_never_rejects [where opts = ?opts and fetch = "always 500 None"
      and clk = clock0 and conc = "[]" and c = "Done None"
      and jt = "Job_new clock0 ''job-1'' options0 0" and s = idle and w = world0 and evs = jobA,
      OF m] f c
  show ?thesis
    by (simp add: observed_def options1_def always_def attempt_error_def retryable_error_def
          show_nat.simps world0_def)
qed



section \<open>Properties of shutdown\<close>

lemma shutdown_again:
  "shutdownCalled s \<Longrightarrow> Synquer_shutdown opts fetch conc (s, w) = (Inr (), s, w)"
  by (simp add: Synquer_shutdown_def)

lemma shutdown_first:
  "\<not> shutdownCalled s \<Longrightarrow>
   Synquer_shutdown opts fetch conc (s, w) =
     (if buffer s \<noteq> []
      then Synquer_flush opts fetch conc (s\<lparr>shutdownCalled := True, flushTimer := False\<rparr>, w)
      else (Inr (), s\<lparr>shutdownCalled := True, flushTimer := False\<rparr>, w))"
  by (cases s) (auto simp: Synquer_shutdown_def Let_def)

lemma flush_keeps_shutdown:
  "shutdownCalled (fst (snd (Synquer_flush opts fetch conc (s, w)))) = shutdownCalled s \<and>
   (shutdownCalled s \<longrightarrow>
      flushTimer (fst (snd (Synquer_flush opts fetch conc (s, w)))) = flushTimer s)"
proof (cases "buffer s = [] \<or> flushing s")
  case True
  then show ?thesis by (simp add: flush_guarded)
next
  case False
  then have "buffer s \<noteq> []" "\<not> flushing s" by simp_all
  from flush_started(5,6) [OF this] show ?thesis by simp
qed

lemma sendFn_keeps_shutdown:
  "shutdownCalled (fst (snd (Synquer_sendFn opts fetch conc evs (s, w)))) = shutdownCalled s"
proof (cases "mode opts = per_job")
  case True
  then show ?thesis by (simp add: sendFn_per_job)
next
  case False
  then have "mode opts = batch" by (cases "mode opts") simp_all
  from sendFn_batch [OF this, where fetch = fetch and conc = conc and evs = evs and s = s and w = w]
    flush_keeps_shutdown [where s = "push_events evs s" and opts = opts and fetch = fetch
      and conc = conc and w = w]
  show ?thesis by (simp split: if_splits)
qed

lemma shutdown_marks:
  "shutdownCalled (fst (snd (Synquer_shutdown opts fetch conc (s, w)))) \<and>
   (\<not> shutdownCalled s \<longrightarrow> \<not> flushTimer (fst (snd (Synquer_shutdown opts fetch conc (s, w)))))"
proof (cases "shutdownCalled s")
  case True
  then show ?thesis by (simp add: shutdown_again)
next
  case False
  with flush_keeps_shutdown [where s = "s\<lparr>shutdownCalled := True, flushTimer := False\<rparr>"
      and opts = opts and fetch = fetch and conc = conc and w = w]
  show ?thesis by (simp add: shutdown_first)
qed

text \<open>
  Claim C8 is not what the code does when shutdown is called while a flush is in flight.
  The first call cancels the timer and calls flush, which returns at the guard; the second
  call does nothing.  So the two calls make no request, and the events pushed since that
  flush started stay in the buffer, with no timer left to flush them.
\<close>

theorem shutdown_in_flight_strands_events:
  "buffer in_flight = jobB \<and> jobB \<noteq> [] \<and> \<not> shutdownCalled in_flight \<and>
   success (always 200 None (calls world1) (batch_request (options1 batch 100 3) jobB)) \<and>
   Synquer_shutdown (options1 batch 100 3) (always 200 None) [] (in_flight, world1) =
     (Inr (), in_flight\<lparr>flushTimer := False, shutdownCalled := True\<rparr>, world1) \<and>
   Synquer_shutdown (options1 batch 100 3) (always 200 None) []
     (snd (Synquer_shutdown (options1 batch 100 3) (always 200 None) [] (in_flight, world1))) =
     (Inr (), in_flight\<lparr>flushTimer := False, shutdownCalled := True\<rparr>, world1) \<and>
   calls (snd (snd (Synquer_shutdown (options1 batch 100 3) (always 200 None) []
     (snd (Synquer_shutdown (options1 batch 100 3) (always 200 None) [] (in_flight, world1)))))) =
     calls world1"
  by (simp add: in_flight_def world1_def client_defs eval_defs)

end
